theory Spec2Isabelle
  imports Complex_Main
begin

section \<open>The air hockey preparation task (class AirHockeyPrepare of prepare.py)\<close>

text \<open>
  The module layers a reward, a termination test, an episode reset and a contact tracker
  over a PyBullet simulation and over the parent class AirHockeySingle. Neither the
  simulator nor the parent class belongs to the module, so what the module reads from
  them is carried as data: the simulator as a record of what its calls read and write,
  the parent's part of the instance as a record of the attributes the module uses.

  Python floats are modelled as real numbers: rounding, overflow and underflow are
  outside the model, and no property below asserts that a result is finite. Two things
  of float arithmetic are kept, because the module's results depend on them: the \<open>nan\<close>
  of a division \<open>0 / 0\<close> on numpy arrays, as a value of its own, and the sign bit of a
  zero, where \<open>np.copysign\<close> reads it.
\<close>

subsection \<open>Numbers and vectors\<close>

datatype npfloat = Float real | NaN

definition np_lift1 :: "(real \<Rightarrow> real) \<Rightarrow> npfloat \<Rightarrow> npfloat" where
  "np_lift1 f a = (case a of Float x \<Rightarrow> Float (f x) | NaN \<Rightarrow> NaN)"

definition np_lift2 :: "(real \<Rightarrow> real \<Rightarrow> real) \<Rightarrow> npfloat \<Rightarrow> npfloat \<Rightarrow> npfloat" where
  "np_lift2 f a b =
     (case a of
        Float x \<Rightarrow> (case b of Float y \<Rightarrow> Float (f x y) | NaN \<Rightarrow> NaN)
      | NaN \<Rightarrow> NaN)"

text \<open>
  Division of array elements, \<open>x / d\<close>. The only divisor of the module that can be zero
  is the norm of the vector being divided, so a zero divisor meets a zero dividend and
  numpy yields \<open>nan\<close> (with a warning, not an exception).
\<close>

definition np_divide :: "real \<Rightarrow> real \<Rightarrow> npfloat" where
  "np_divide x d = (if d = 0 then NaN else Float (x / d))"

text \<open>\<open>np.clip(a, lo, hi)\<close> is \<open>minimum(maximum(a, lo), hi)\<close>; \<open>nan\<close> passes through.\<close>

definition np_clip :: "npfloat \<Rightarrow> real \<Rightarrow> real \<Rightarrow> npfloat" where
  "np_clip a lo hi = np_lift1 (\<lambda>x. min (max x lo) hi) a"

text \<open>
  A float carries a sign bit, and a float zero is either \<open>0.0\<close> or \<open>-0.0\<close>. The two
  zeros are equal in every comparison and in the arithmetic of the module; only
  \<open>np.copysign\<close> tells them apart. So a float whose sign is read is a real number
  together with a flag that says, for a zero, whether it is the negative one.
  \<open>signbit\<close> is the sign bit of such a float, and \<open>np.copysign(c, y)\<close> is the magnitude
  of \<open>c\<close> with the sign bit of \<open>y\<close>.
\<close>

definition signbit :: "real \<Rightarrow> bool \<Rightarrow> bool" where
  "signbit y negative_zero = (y < 0 \<or> (y = 0 \<and> negative_zero))"

definition copysign :: "real \<Rightarrow> bool \<Rightarrow> real" where
  "copysign c sign_bit = (if sign_bit then - \<bar>c\<bar> else \<bar>c\<bar>)"

text \<open>
  Python's built-in \<open>max([a, b])\<close> keeps the first element unless a later one compares
  greater; every comparison with \<open>nan\<close> is false.
\<close>

definition py_max2 :: "npfloat \<Rightarrow> npfloat \<Rightarrow> npfloat" where
  "py_max2 a b =
     (case a of
        Float x \<Rightarrow> (case b of Float y \<Rightarrow> (if y > x then b else a) | NaN \<Rightarrow> a)
      | NaN \<Rightarrow> a)"

type_synonym vec2 = "real \<times> real"

definition vec_sub :: "vec2 \<Rightarrow> vec2 \<Rightarrow> vec2" where
  "vec_sub a b = (fst a - fst b, snd a - snd b)"

text \<open>
  \<open>np.linalg.norm\<close> of a vector with two components, and of an action vector. Over
  the reals a norm neither overflows nor underflows to zero, as a float norm can.
\<close>

definition linalg_norm2 :: "vec2 \<Rightarrow> real" where
  "linalg_norm2 v = sqrt ((fst v)\<^sup>2 + (snd v)\<^sup>2)"

definition linalg_norm :: "real list \<Rightarrow> real" where
  "linalg_norm a = sqrt (sum_list (map (\<lambda>x. x\<^sup>2) a))"

text \<open>\<open>v / d\<close> on a vector, and the product \<open>v @ w\<close> of two vectors.\<close>

definition vec_divide :: "vec2 \<Rightarrow> real \<Rightarrow> npfloat \<times> npfloat" where
  "vec_divide v d = (np_divide (fst v) d, np_divide (snd v) d)"

definition matmul :: "npfloat \<times> npfloat \<Rightarrow> vec2 \<Rightarrow> npfloat" where
  "matmul v w =
     np_lift2 (+) (np_lift2 (*) (fst v) (Float (fst w))) (np_lift2 (*) (snd v) (Float (snd w)))"

subsection \<open>The simulation and the instance\<close>

text \<open>
  A state vector, seen through the parent's \<open>get_sim_state\<close>: the three queries the
  module makes, each cut to its first two components by \<open>[:2]\<close>. The \<open>y\<close> component
  of the puck position is the one float whose sign bit the module reads:
  \<open>puck_y_negative_zero\<close> says whether that component, when it is zero, is \<open>-0.0\<close>.
\<close>

record sim_state =
  puck_BODY_POS :: vec2
  puck_y_negative_zero :: bool
  puck_BODY_LIN_VEL :: vec2
  link_striker_ee_LINK_POS :: vec2

text \<open>
  The PyBullet client: the pose of each body (position and orientation quaternion), the
  position of each joint of each model, and the contact points between a link of one
  body and a link of another, as \<open>getContactPoints(bodyA, bodyB, linkA, linkB)\<close>
  lists them.
\<close>

type_synonym pose = "(real \<times> real \<times> real) \<times> (real \<times> real \<times> real \<times> real)"

record bullet_client =
  base_pose :: "nat \<rightharpoonup> pose"
  joint_state :: "nat \<times> nat \<rightharpoonup> real"
  getContactPoints :: "nat \<Rightarrow> nat \<Rightarrow> int \<Rightarrow> int \<Rightarrow> nat list"

definition resetBasePositionAndOrientation ::
  "bullet_client \<Rightarrow> nat \<Rightarrow> real \<times> real \<times> real \<Rightarrow> real \<times> real \<times> real \<times> real \<Rightarrow> bullet_client"
where
  "resetBasePositionAndOrientation c body pos orn = c\<lparr>base_pose := (base_pose c)(body \<mapsto> (pos, orn))\<rparr>"

definition resetJointState :: "bullet_client \<Rightarrow> nat \<Rightarrow> nat \<Rightarrow> real \<Rightarrow> bullet_client" where
  "resetJointState c model_id joint_id v =
     c\<lparr>joint_state := (joint_state c)((model_id, joint_id) \<mapsto> v)\<rparr>"

text \<open>
  The attributes the parent class builds and the module reads: the entries of
  \<open>_model_map\<close> and \<open>_indexer.link_map\<close> it looks up (a link is a pair of a model id
  and a link index), \<open>_indexer.action_data\<close>, \<open>init_state\<close>, the client, and the
  current state vector \<open>_state\<close> (here \<open>private_state\<close>).
\<close>

record AirHockeySingle =
  model_map_puck :: nat
  link_map_striker_ee :: "nat \<times> int"
  link_map_t_up_rim_l :: "nat \<times> int"
  link_map_t_up_rim_r :: "nat \<times> int"
  link_map_t_down_rim_l :: "nat \<times> int"
  link_map_t_down_rim_r :: "nat \<times> int"
  action_data :: "(nat \<times> nat \<times> nat) list"
  init_state :: "real list"
  client :: bullet_client
  private_state :: sim_state

record AirHockeyPrepare =
  random_init :: bool
  action_penalty :: real
  sub_problem :: string
  start_range :: "((real \<times> real) \<times> (real \<times> real)) option"
  desired_point :: vec2
  ee_end_pos :: vec2
  has_hit :: bool
  has_bounce :: bool
  puck_pos :: "vec2 option"
  parent :: AirHockeySingle

text \<open>
  The exceptions: the three the module's own code can raise, and one that stands for
  whatever the parent's constructor raises.
\<close>

datatype error = TypeError | AxisError | IndexError | ParentError

subsection \<open>The constructor\<close>

text \<open>
  \<open>__init__\<close> sets the module's own attributes and then calls the parent's
  constructor. The outcome of that call is a parameter: the attributes it built, or the
  exception it raised.
\<close>

definition init :: "bool \<Rightarrow> real \<Rightarrow> string \<Rightarrow> error + AirHockeySingle \<Rightarrow> error + AirHockeyPrepare" where
  "init random_init_arg action_penalty_arg sub_problem_arg super_init =
     (let range =
            (if sub_problem_arg = ''side'' then Some ((-0.8, -0.4), (0.25, 0.46))
             else if sub_problem_arg = ''bottom'' then Some ((-0.9, -0.8), (0.125, 0.46))
             else None)
      in case super_init of
           Inl err \<Rightarrow> Inl err
         | Inr p \<Rightarrow>
             Inr \<lparr>random_init = random_init_arg,
                  action_penalty = action_penalty_arg,
                  sub_problem = sub_problem_arg,
                  start_range = range,
                  desired_point = (-0.6, 0),
                  ee_end_pos = (-0.810001913, -0.00000143459494),
                  has_hit = False,
                  has_bounce = False,
                  puck_pos = None,
                  parent = p\<rparr>)"

subsection \<open>Episode reset\<close>

text \<open>
  The loop of \<open>setup\<close> over \<open>enumerate(action_data)\<close>; \<open>init_state[i]\<close> raises
  IndexError past the end of the vector.
\<close>

fun reset_joints :: "bullet_client \<Rightarrow> real list \<Rightarrow> nat \<Rightarrow> (nat \<times> nat \<times> nat) list \<Rightarrow> error + bullet_client" where
  "reset_joints c init_vec i [] = Inr c"
| "reset_joints c init_vec i ((model_id, joint_id, mode) # rest) =
     (if i < length init_vec
      then reset_joints (resetJointState c model_id joint_id (init_vec ! i)) init_vec (Suc i) rest
      else Inl IndexError)"

text \<open>
  The method \<open>setup\<close> (that name is an Isabelle keyword). The draws of
  \<open>np.random.rand(2)\<close> and \<open>np.random.randint(2)\<close> are parameters (\<open>flip\<close> stands for the draw 1). With no start range (\<open>None\<close>) the random
  branch raises TypeError on the subscript and the other branch raises AxisError in
  \<open>np.mean\<close>, both before anything is changed. \<open>Inl\<close> says that the call raised.
\<close>

definition setup_episode :: "vec2 \<Rightarrow> bool \<Rightarrow> AirHockeyPrepare \<Rightarrow> sim_state \<Rightarrow> error + AirHockeyPrepare" where
  "setup_episode rand flip self state =
     (case start_range self of
        None \<Rightarrow> Inl (if random_init self then TypeError else AxisError)
      | Some ((x_lo, x_hi), (y_lo, y_hi)) \<Rightarrow>
          (let p = (if random_init self
                    then (fst rand * (x_hi - x_lo) + x_lo,
                          (snd rand * (y_hi - y_lo) + y_lo) * (if flip then -1 else 1))
                    else ((x_lo + x_hi) / 2, (y_lo + y_hi) / 2));
               self1 = (if random_init self then self\<lparr>puck_pos := Some p\<rparr> else self);
               self2 = self1\<lparr>desired_point := (fst p, 0)\<rparr>;
               c1 = resetBasePositionAndOrientation (client (parent self2))
                      (model_map_puck (parent self2)) (fst p, snd p, -0.189) (0, 0, 0, 1.0)
           in case reset_joints c1 (init_state (parent self2)) 0 (action_data (parent self2)) of
                Inl err \<Rightarrow> Inl err
              | Inr c2 \<Rightarrow>
                  Inr (self2\<lparr>parent := (parent self2)\<lparr>client := c2\<rparr>,
                              has_hit := False,
                              has_bounce := False\<rparr>)))"

subsection \<open>Reward\<close>

text \<open>
  The method \<open>reward\<close>. The local \<open>puck_pos\<close> of the source is \<open>puck\<close> here (the
  instance has an attribute of that name), and \<open>puck_y_sign\<close> is the sign bit of
  \<open>puck_pos[1]\<close>, which the two calls of \<open>np.copysign\<close> read. The two early \<open>return\<close>s give the bonus
  without the penalty; every other path ends in \<open>r -= action_penalty * norm(action)\<close>.
\<close>

definition reward :: "AirHockeyPrepare \<Rightarrow> sim_state \<Rightarrow> real list \<Rightarrow> sim_state \<Rightarrow> bool \<Rightarrow> npfloat" where
  "reward self state action next_state absorbing =
     (let puck = puck_BODY_POS next_state;
          puck_y_sign = signbit (snd puck) (puck_y_negative_zero next_state);
          puck_vel = puck_BODY_LIN_VEL next_state;
          ee_pos = link_striker_ee_LINK_POS next_state;
          penalty = Float (action_penalty self * linalg_norm action)
      in if sub_problem self = ''side'' then
           (if absorbing \<and> \<bar>snd puck\<bar> < 0.47 then Float (100 * exp (-2 * linalg_norm2 puck_vel))
            else
              np_lift2 (-)
                (if has_hit self then
                   (if fst puck < -0.35 \<and> \<bar>snd puck\<bar> < 0.47 then
                      (let r_vel_x = py_max2 (Float 0) (Float (1 - (10 * (exp \<bar>fst puck_vel\<bar> - 1))));
                           dist_ee_des = linalg_norm2 (vec_sub ee_pos (ee_end_pos self));
                           r_ee = 0.5 - dist_ee_des
                       in np_lift2 (+) (np_lift2 (+) r_vel_x (Float r_ee)) (Float 1))
                    else Float 0)
                 else
                   (let dist_ee_puck = linalg_norm2 (vec_sub puck ee_pos);
                        vec_ee_puck = vec_divide (vec_sub puck ee_pos) dist_ee_puck;
                        cos_ang = np_clip (matmul vec_ee_puck (0, copysign 1 puck_y_sign)) 0 1
                    in np_lift2 (*) (Float (exp (-8 * (dist_ee_puck - 0.08)))) (np_lift1 (\<lambda>c. c\<^sup>2) cos_ang)))
                penalty)
         else
           (if absorbing \<and> fst puck \<ge> -0.6 then Float (100 * exp (-2 * linalg_norm2 puck_vel))
            else
              np_lift2 (-)
                (if has_hit self then
                   (if -0.6 > fst puck \<and> fst puck > -0.9 \<and> \<bar>snd puck\<bar> < 0.47 then
                      (let sig = 0.1;
                           r_x = 1 / (sqrt (2 * pi) * sig) * exp (- (((fst puck + 0.75) / sig)\<^sup>2) / 2);
                           r_y = 2 - \<bar>snd puck_vel\<bar>;
                           dist_ee_des = linalg_norm2 (vec_sub ee_pos (ee_end_pos self));
                           r_ee = 0.5 * exp (-3 * dist_ee_des)
                       in Float (r_x + r_y + r_ee + 1))
                    else Float 0)
                 else
                   (let dist_ee_puck = linalg_norm2 (vec_sub puck ee_pos);
                        vec_ee_puck = vec_divide (vec_sub puck ee_pos) dist_ee_puck;
                        cos_ang_side = np_clip (matmul vec_ee_puck (0.2, copysign 0.8 puck_y_sign)) 0 1;
                        cos_ang_bottom = np_clip (matmul vec_ee_puck (-1, 0)) 0 1;
                        cos_ang = py_max2 cos_ang_side cos_ang_bottom
                    in np_lift2 (*) (Float (exp (-8 * (dist_ee_puck - 0.08)))) (np_lift1 (\<lambda>c. c\<^sup>2) cos_ang)))
                penalty))"

subsection \<open>Termination\<close>

text \<open>
  \<open>is_absorbing\<close>. The parent's check is a parameter. The puck position is read from
  the instance's current state \<open>_state\<close>, not from the argument.
\<close>

definition is_absorbing :: "(AirHockeySingle \<Rightarrow> sim_state \<Rightarrow> bool) \<Rightarrow> AirHockeyPrepare \<Rightarrow> sim_state \<Rightarrow> bool" where
  "is_absorbing super_is_absorbing self state =
     (if super_is_absorbing (parent self) state then True
      else if sub_problem self = ''side'' then
        (if has_hit self \<and>
            (let puck = puck_BODY_POS (private_state (parent self)) in fst puck > 0 \<or> \<bar>snd puck\<bar> < 0.01)
         then True
         else has_bounce self)
      else
        (if has_hit self \<and>
            (let puck = puck_BODY_POS (private_state (parent self)) in fst puck > 0 \<or> \<bar>snd puck\<bar> < 0.01)
         then True
         else False))"

subsection \<open>Contact tracking\<close>

definition contact_count :: "AirHockeyPrepare \<Rightarrow> nat \<times> int \<Rightarrow> nat" where
  "contact_count self link =
     length (getContactPoints (client (parent self)) (model_map_puck (parent self)) (fst link) (-1) (snd link))"

definition simulation_post_step :: "AirHockeyPrepare \<Rightarrow> AirHockeyPrepare" where
  "simulation_post_step self =
     (let self1 =
            (if \<not> has_hit self then
               (let collision_count = contact_count self (link_map_striker_ee (parent self))
                in if collision_count > 0 then self\<lparr>has_hit := True\<rparr> else self)
             else self)
      in if \<not> has_bounce self1 then
           (let collision_count =
                  0 + contact_count self1 (link_map_t_up_rim_l (parent self1))
                    + contact_count self1 (link_map_t_up_rim_r (parent self1))
                    + contact_count self1 (link_map_t_down_rim_l (parent self1))
                    + contact_count self1 (link_map_t_down_rim_r (parent self1))
            in if collision_count > 0 then self1\<lparr>has_bounce := True\<rparr> else self1)
         else self1)"

subsection \<open>Observation\<close>

definition create_observation :: "(AirHockeySingle \<Rightarrow> sim_state \<Rightarrow> real list) \<Rightarrow> AirHockeyPrepare \<Rightarrow> sim_state \<Rightarrow> real list" where
  "create_observation super_create_observation self state =
     super_create_observation (parent self) state @ [if has_hit self then 1 else 0]"

subsection \<open>Method calls and their effect on the instance\<close>

text \<open>
  The methods of the class, as calls on an instance. Only \<open>setup\<close> and
  \<open>_simulation_post_step\<close> assign attributes; \<open>reward\<close>, \<open>is_absorbing\<close> and
  \<open>_create_observation\<close> return a value and leave the instance as it is.
\<close>

datatype method_call =
    Call_setup vec2 bool sim_state
  | Call_reward sim_state "real list" sim_state bool
  | Call_is_absorbing sim_state
  | Call_simulation_post_step
  | Call_create_observation sim_state

fun instance_after :: "method_call \<Rightarrow> AirHockeyPrepare \<Rightarrow> error + AirHockeyPrepare" where
  "instance_after (Call_setup rand flip state) self = setup_episode rand flip self state"
| "instance_after (Call_reward state action next_state absorbing) self = Inr self"
| "instance_after (Call_is_absorbing state) self = Inr self"
| "instance_after Call_simulation_post_step self = Inr (simulation_post_step self)"
| "instance_after (Call_create_observation state) self = Inr self"

subsection \<open>Notions used to state the properties\<close>

text \<open>The number of contact points between the puck and the four rim segments.\<close>

definition rim_contact_count :: "AirHockeyPrepare \<Rightarrow> nat" where
  "rim_contact_count self =
     contact_count self (link_map_t_up_rim_l (parent self))
     + contact_count self (link_map_t_up_rim_r (parent self))
     + contact_count self (link_map_t_down_rim_l (parent self))
     + contact_count self (link_map_t_down_rim_r (parent self))"

text \<open>The instance after the simulation has moved on: the client is another one.\<close>

definition with_client :: "AirHockeyPrepare \<Rightarrow> bullet_client \<Rightarrow> AirHockeyPrepare" where
  "with_client self c = self\<lparr>parent := (parent self)\<lparr>client := c\<rparr>\<rparr>"

text \<open>The joint an entry of \<open>action_data\<close> names: its model id and joint id.\<close>

definition joint_key :: "nat \<times> nat \<times> nat \<Rightarrow> nat \<times> nat" where
  "joint_key a = (fst a, fst (snd a))"

text \<open>
  The shaping formula of the specification for regime "side" before the hit, as the
  specification writes it: \<open>d = ||puck_pos - ee_pos||\<close>, \<open>v = (puck_pos - ee_pos) / d\<close>,
  \<open>cos = clip(v . (0, s), 0, 1)\<close>, \<open>r = exp(-8 * (d - 0.08)) * cos^2\<close>. The sign \<open>s\<close> is
  a parameter: the specification's is \<open>sign(puck_y)\<close>, that is \<open>sgn\<close>, with \<open>sgn 0 = 0\<close>.
\<close>

definition side_pre_hit_formula :: "real \<Rightarrow> vec2 \<Rightarrow> vec2 \<Rightarrow> real" where
  "side_pre_hit_formula s puck ee =
     (let d = linalg_norm2 (vec_sub puck ee);
          v = (fst (vec_sub puck ee) / d, snd (vec_sub puck ee) / d);
          cos = min (max (fst v * 0 + snd v * s) 0) 1
      in exp (-8 * (d - 0.08)) * cos\<^sup>2)"

text \<open>
  The formulas of the specification for regime "bottom": the Gaussian term in the puck's
  \<open>x\<close>, and the shaping before the hit, with the larger of two alignments, each clipped
  to \<open>[0, 1]\<close>: with \<open>(0.2, s)\<close>, where \<open>s\<close> is \<open>0.8\<close> or \<open>-0.8\<close> by the puck's side, and
  with \<open>(-1, 0)\<close>.
\<close>

definition bottom_r_x :: "real \<Rightarrow> real" where
  "bottom_r_x x = 1 / (sqrt (2 * pi) * 0.1) * exp (- (((x + 0.75) / 0.1)\<^sup>2) / 2)"

definition bottom_pre_hit_formula :: "real \<Rightarrow> vec2 \<Rightarrow> vec2 \<Rightarrow> real" where
  "bottom_pre_hit_formula s puck ee =
     (let d = linalg_norm2 (vec_sub puck ee);
          v = (fst (vec_sub puck ee) / d, snd (vec_sub puck ee) / d);
          cos_side = min (max (fst v * 0.2 + snd v * s) 0) 1;
          cos_bottom = min (max (fst v * (-1) + snd v * 0) 0) 1
      in exp (-8 * (d - 0.08)) * (max cos_side cos_bottom)\<^sup>2)"

text \<open>
  The inputs on which \<open>reward\<close> evaluates a shaping term before the hit: \<open>has_hit\<close> is
  false and the bonus at the end of the episode does not apply.
\<close>

definition pre_hit_shaping_evaluated :: "AirHockeyPrepare \<Rightarrow> sim_state \<Rightarrow> bool \<Rightarrow> bool" where
  "pre_hit_shaping_evaluated self next_state absorbing =
     (\<not> has_hit self \<and>
      (if sub_problem self = ''side''
       then \<not> (absorbing \<and> \<bar>snd (puck_BODY_POS next_state)\<bar> < 0.47)
       else \<not> (absorbing \<and> fst (puck_BODY_POS next_state) \<ge> -0.6)))"

subsection \<open>Sample instances\<close>

text \<open>A client with no contact, a state from its three readings, and a task instance.\<close>

definition demo_client :: bullet_client where
  "demo_client = \<lparr>base_pose = Map.empty, joint_state = Map.empty, getContactPoints = (\<lambda>a b la lb. [])\<rparr>"

definition demo_state :: "vec2 \<Rightarrow> vec2 \<Rightarrow> vec2 \<Rightarrow> sim_state" where
  "demo_state p v e =
     \<lparr>puck_BODY_POS = p, puck_y_negative_zero = False, puck_BODY_LIN_VEL = v,
      link_striker_ee_LINK_POS = e\<rparr>"

text \<open>The same state with the sign bit of a zero \<open>puck_y\<close> set.\<close>

definition demo_state_negative_zero :: "vec2 \<Rightarrow> vec2 \<Rightarrow> vec2 \<Rightarrow> sim_state" where
  "demo_state_negative_zero p v e =
     \<lparr>puck_BODY_POS = p, puck_y_negative_zero = True, puck_BODY_LIN_VEL = v,
      link_striker_ee_LINK_POS = e\<rparr>"

definition demo_parent :: "bullet_client \<Rightarrow> sim_state \<Rightarrow> AirHockeySingle" where
  "demo_parent c s =
     \<lparr>model_map_puck = 1, link_map_striker_ee = (2, 3), link_map_t_up_rim_l = (0, 4),
      link_map_t_up_rim_r = (0, 5), link_map_t_down_rim_l = (0, 6), link_map_t_down_rim_r = (0, 7),
      action_data = [(2, 0, 0), (2, 1, 0), (2, 2, 0)],
      init_state = [-0.9273, 0.9273, pi / 2],
      client = c,
      private_state = s\<rparr>"

definition demo_task :: "string \<Rightarrow> bool \<Rightarrow> bool \<Rightarrow> AirHockeySingle \<Rightarrow> AirHockeyPrepare" where
  "demo_task sp hit bounce p =
     \<lparr>random_init = False, action_penalty = 0.001, sub_problem = sp,
      start_range = (if sp = ''side'' then Some ((-0.8, -0.4), (0.25, 0.46))
                     else if sp = ''bottom'' then Some ((-0.9, -0.8), (0.125, 0.46)) else None),
      desired_point = (-0.6, 0),
      ee_end_pos = (-0.810001913, -0.00000143459494), has_hit = hit, has_bounce = bounce,
      puck_pos = None, parent = p\<rparr>"

definition demo_rest :: AirHockeySingle where
  "demo_rest = demo_parent demo_client (demo_state (-0.6, 0.355) (0, 0) (-0.81, 0))"

text \<open>A client that reports the given contact points with the striker and with one rim.\<close>

definition demo_contacts :: "nat list \<Rightarrow> nat list \<Rightarrow> bullet_client" where
  "demo_contacts striker rim =
     \<lparr>base_pose = Map.empty, joint_state = Map.empty,
      getContactPoints = (\<lambda>a b la lb.
         if (a, b, la, lb) = (1, 2, -1, 3) then striker
         else if (a, b, la, lb) = (1, 0, -1, 6) then rim else [])\<rparr>"

definition demo_before :: AirHockeyPrepare where
  "demo_before =
     demo_task ''side'' True False (demo_parent (demo_contacts [] [8]) (demo_state (-0.6, 0.355) (0, 0) (-0.81, 0)))"

section \<open>Properties\<close>

subsection \<open>Arithmetic on finite values\<close>

lemma py_max2_Float: "py_max2 (Float x) (Float y) = Float (max x y)"
  by (simp add: py_max2_def max_def)

lemma np_lift2_Float: "np_lift2 f (Float x) (Float y) = Float (f x y)"
  by (simp add: np_lift2_def)

lemma np_lift1_Float: "np_lift1 f (Float x) = Float (f x)"
  by (simp add: np_lift1_def)

lemma np_clip_Float: "np_clip (Float x) lo hi = Float (min (max x lo) hi)"
  by (simp add: np_clip_def np_lift1_def)

lemma linalg_norm2_eq_0: "linalg_norm2 (vec_sub a b) = 0 \<longleftrightarrow> a = b"
  by (cases a; cases b) (simp add: linalg_norm2_def vec_sub_def)

lemma linalg_norm2_3_4: "linalg_norm2 (3 / 10, 2 / 5) = 1 / 2"
  unfolding linalg_norm2_def by (rule real_sqrt_unique) (simp_all add: power2_eq_square)

subsection \<open>Reward, regime "side": the bonus at the end of an episode\<close>

text \<open>
  C1. In regime "side", when \<open>reward\<close> is called with \<open>absorbing\<close> true and the puck of
  the next state has \<open>|y| < 0.47\<close>, the result is \<open>100 * exp(-2 * ||puck velocity||)\<close>,
  whatever the flag \<open>has_hit\<close> and the action are; no action penalty is subtracted.
\<close>

theorem reward_side_absorbing_bonus:
  assumes "sub_problem self = ''side''" and "\<bar>snd (puck_BODY_POS next_state)\<bar> < 0.47"
  shows "reward (self\<lparr>has_hit := h\<rparr>) state action next_state True =
         Float (100 * exp (-2 * linalg_norm2 (puck_BODY_LIN_VEL next_state)))"
  using assms by (simp add: reward_def Let_def)

theorem reward_side_absorbing_bonus_witness:
  "sub_problem (demo_task ''side'' True False demo_rest) = ''side'' \<and>
   \<bar>snd (puck_BODY_POS (demo_state (-0.5, 0.2) (0.3, 0.4) (0, 0)))\<bar> < 0.47 \<and>
   reward (demo_task ''side'' False False demo_rest) (demo_state (0, 0) (0, 0) (0, 0)) [1, 2, 2]
     (demo_state (-0.5, 0.2) (0.3, 0.4) (0, 0)) True = Float (100 * exp (-1))"
  using reward_side_absorbing_bonus
          [of "demo_task ''side'' True False demo_rest" "demo_state (-0.5, 0.2) (0.3, 0.4) (0, 0)"
              False "demo_state (0, 0) (0, 0) (0, 0)" "[1, 2, 2]"]
  by (simp add: demo_task_def demo_state_def linalg_norm2_3_4)

subsection \<open>Reward and the bounce flag\<close>

text \<open>
  C9. The reward never depends on \<open>has_bounce\<close>: two instances that differ in that flag
  only give the same reward on the same inputs.
\<close>

theorem reward_ignores_has_bounce:
  "reward (self\<lparr>has_bounce := b\<rparr>) state action next_state absorbing =
   reward self state action next_state absorbing"
  by (simp add: reward_def Let_def)

lemma linalg_norm_3_4_0: "linalg_norm [3, 4, 0] = 5"
  unfolding linalg_norm_def by (rule real_sqrt_unique) simp_all

lemma linalg_norm2_zero: "linalg_norm2 (0, 0) = 0"
  by (simp add: linalg_norm2_def)

subsection \<open>Termination\<close>

text \<open>
  C2. \<open>is_absorbing\<close> is true when the parent's check is true. Otherwise, in regime
  "side" it is true when \<open>has_hit\<close> holds and the puck has \<open>x > 0\<close> or \<open>|y| < 0.01\<close>,
  and else it is the value of \<open>has_bounce\<close>; in regime "bottom" it is true under the
  same condition and else false, so a rim bounce alone never ends a "bottom" episode.
  The puck position is the one of the instance's current state.
\<close>

theorem is_absorbing_cases:
  fixes self :: AirHockeyPrepare
  defines "puck \<equiv> puck_BODY_POS (private_state (parent self))"
  shows "(base (parent self) state \<longrightarrow> is_absorbing base self state) \<and>
         (\<not> base (parent self) state \<and> sub_problem self = ''side'' \<longrightarrow>
            is_absorbing base self state =
              (if has_hit self \<and> (fst puck > 0 \<or> \<bar>snd puck\<bar> < 0.01) then True else has_bounce self)) \<and>
         (\<not> base (parent self) state \<and> sub_problem self = ''bottom'' \<longrightarrow>
            is_absorbing base self state =
              (if has_hit self \<and> (fst puck > 0 \<or> \<bar>snd puck\<bar> < 0.01) then True else False))"
  by (simp add: is_absorbing_def puck_def Let_def)

theorem is_absorbing_cases_witness:
  "is_absorbing (\<lambda>p s. True) (demo_task ''bottom'' False False demo_rest) (demo_state (0, 0) (0, 0) (0, 0)) \<and>
   is_absorbing (\<lambda>p s. False)
     (demo_task ''side'' True False (demo_parent demo_client (demo_state (0.1, 0.2) (0, 0) (0, 0))))
     (demo_state (0, 0) (0, 0) (0, 0)) \<and>
   \<not> is_absorbing (\<lambda>p s. False) (demo_task ''side'' False False demo_rest) (demo_state (0.1, 0.2) (0, 0) (0, 0)) \<and>
   is_absorbing (\<lambda>p s. False) (demo_task ''side'' False True demo_rest) (demo_state (0, 0) (0, 0) (0, 0)) \<and>
   is_absorbing (\<lambda>p s. False)
     (demo_task ''bottom'' True False (demo_parent demo_client (demo_state (-0.5, 0.005) (0, 0) (0, 0))))
     (demo_state (0, 0) (0, 0) (0, 0)) \<and>
   \<not> is_absorbing (\<lambda>p s. False) (demo_task ''bottom'' False True demo_rest) (demo_state (0, 0) (0, 0) (0, 0))"
  using is_absorbing_cases [of "\<lambda>p s. True" "demo_task ''bottom'' False False demo_rest" "demo_state (0, 0) (0, 0) (0, 0)"]
        is_absorbing_cases [of "\<lambda>p s. False" "demo_task ''side'' True False (demo_parent demo_client (demo_state (0.1, 0.2) (0, 0) (0, 0)))" "demo_state (0, 0) (0, 0) (0, 0)"]
        is_absorbing_cases [of "\<lambda>p s. False" "demo_task ''side'' False False demo_rest" "demo_state (0.1, 0.2) (0, 0) (0, 0)"]
        is_absorbing_cases [of "\<lambda>p s. False" "demo_task ''side'' False True demo_rest" "demo_state (0, 0) (0, 0) (0, 0)"]
        is_absorbing_cases [of "\<lambda>p s. False" "demo_task ''bottom'' True False (demo_parent demo_client (demo_state (-0.5, 0.005) (0, 0) (0, 0)))" "demo_state (0, 0) (0, 0) (0, 0)"]
        is_absorbing_cases [of "\<lambda>p s. False" "demo_task ''bottom'' False True demo_rest" "demo_state (0, 0) (0, 0) (0, 0)"]
  by (simp add: demo_task_def demo_parent_def demo_state_def demo_rest_def)

subsection \<open>Reward, regime "side": after the hit\<close>

text \<open>
  C4. In regime "side", off the bonus path and with \<open>has_hit\<close> true: when the puck has
  \<open>x < -0.35\<close> and \<open>|y| < 0.47\<close> the reward before the penalty is
  \<open>max(0, 1 - 10 * (exp(|v_x|) - 1)) + (0.5 - ||ee_pos - ee_end_pos||) + 1\<close>, otherwise
  it is 0; in both cases \<open>action_penalty * ||action||\<close> is subtracted. With
  \<open>x = -0.2\<close> the reward is 0 minus the penalty.
\<close>

theorem reward_side_after_hit:
  fixes self :: AirHockeyPrepare and action :: "real list"
  defines "penalty \<equiv> action_penalty self * linalg_norm action"
  assumes "sub_problem self = ''side''"
    and "\<not> (absorbing \<and> \<bar>snd (puck_BODY_POS next_state)\<bar> < 0.47)"
    and "has_hit self"
  shows "(fst (puck_BODY_POS next_state) < -0.35 \<and> \<bar>snd (puck_BODY_POS next_state)\<bar> < 0.47 \<longrightarrow>
            reward self state action next_state absorbing =
              Float (max 0 (1 - 10 * (exp \<bar>fst (puck_BODY_LIN_VEL next_state)\<bar> - 1))
                     + (0.5 - linalg_norm2 (vec_sub (link_striker_ee_LINK_POS next_state) (ee_end_pos self)))
                     + 1 - penalty)) \<and>
         (\<not> (fst (puck_BODY_POS next_state) < -0.35 \<and> \<bar>snd (puck_BODY_POS next_state)\<bar> < 0.47) \<longrightarrow>
            reward self state action next_state absorbing = Float (0 - penalty)) \<and>
         (fst (puck_BODY_POS next_state) = -0.2 \<longrightarrow>
            reward self state action next_state absorbing = Float (0 - penalty))"
  using assms
  by (auto simp add: reward_def Let_def py_max2_Float np_lift2_Float)

theorem reward_side_after_hit_witness:
  "reward (demo_task ''side'' True False demo_rest) (demo_state (0, 0) (0, 0) (0, 0)) [3, 4, 0]
     (demo_state (-0.5, 0.2) (0, 0) (-0.810001913, -0.00000143459494)) False = Float 2.495 \<and>
   reward (demo_task ''side'' True False demo_rest) (demo_state (0, 0) (0, 0) (0, 0)) [3, 4, 0]
     (demo_state (-0.2, 0.2) (0, 0) (0, 0)) False = Float (- 0.005) \<and>
   reward (demo_task ''side'' True False demo_rest) (demo_state (0, 0) (0, 0) (0, 0)) [3, 4, 0]
     (demo_state (-0.5, 0.47) (0, 0) (0, 0)) True = Float (- 0.005)"
  using reward_side_after_hit [of "demo_task ''side'' True False demo_rest" False
          "demo_state (-0.5, 0.2) (0, 0) (-0.810001913, -0.00000143459494)" "demo_state (0, 0) (0, 0) (0, 0)" "[3, 4, 0]"]
        reward_side_after_hit [of "demo_task ''side'' True False demo_rest" False
          "demo_state (-0.2, 0.2) (0, 0) (0, 0)" "demo_state (0, 0) (0, 0) (0, 0)" "[3, 4, 0]"]
        reward_side_after_hit [of "demo_task ''side'' True False demo_rest" True
          "demo_state (-0.5, 0.47) (0, 0) (0, 0)" "demo_state (0, 0) (0, 0) (0, 0)" "[3, 4, 0]"]
  by (simp add: demo_task_def demo_state_def linalg_norm_3_4_0 vec_sub_def linalg_norm2_zero)

subsection \<open>Values of \<open>sub_problem\<close> other than "side"\<close>

text \<open>
  C10. For every string \<open>sub_problem\<close> other than "side" the constructor adds no error to
  the parent's, and \<open>reward\<close> and \<open>is_absorbing\<close> behave as in regime "bottom"; when the
  string is not "bottom" either, the start range is left unset (\<open>None\<close>).
\<close>

theorem other_sub_problem_is_bottom:
  assumes "sp \<noteq> ''side''"
  shows "(\<exists>e. init ri ap sp (Inr p) = Inr e \<and> sub_problem e = sp \<and>
              (sp \<noteq> ''bottom'' \<longrightarrow> start_range e = None)) \<and>
         (\<forall>self. sub_problem self = sp \<longrightarrow>
            reward self state action next_state absorbing =
              reward (self\<lparr>sub_problem := ''bottom''\<rparr>) state action next_state absorbing \<and>
            is_absorbing base self state = is_absorbing base (self\<lparr>sub_problem := ''bottom''\<rparr>) state)"
proof (intro conjI allI impI)
  show "\<exists>e. init ri ap sp (Inr p) = Inr e \<and> sub_problem e = sp \<and>
              (sp \<noteq> ''bottom'' \<longrightarrow> start_range e = None)"
    using assms by (simp add: init_def)
next
  fix self :: AirHockeyPrepare
  assume "sub_problem self = sp"
  with assms have ns: "sub_problem self \<noteq> ''side''" by simp
  show "reward self state action next_state absorbing =
          reward (self\<lparr>sub_problem := ''bottom''\<rparr>) state action next_state absorbing"
    using ns by (simp add: reward_def Let_def)
  show "is_absorbing base self state = is_absorbing base (self\<lparr>sub_problem := ''bottom''\<rparr>) state"
    using ns by (simp add: is_absorbing_def)
qed

theorem other_sub_problem_is_bottom_witness:
  "''middle'' \<noteq> ''side'' \<and>
   (\<exists>e. init True 0.001 ''middle'' (Inr demo_rest) = Inr e \<and> sub_problem e = ''middle'' \<and> start_range e = None) \<and>
   reward (demo_task ''middle'' True False demo_rest) (demo_state (0, 0) (0, 0) (0, 0)) [3, 4, 0]
       (demo_state (-0.75, 0.2) (0, 0.5) (0, 0)) False =
     reward ((demo_task ''middle'' True False demo_rest)\<lparr>sub_problem := ''bottom''\<rparr>)
       (demo_state (0, 0) (0, 0) (0, 0)) [3, 4, 0] (demo_state (-0.75, 0.2) (0, 0.5) (0, 0)) False \<and>
   is_absorbing (\<lambda>p s. False) (demo_task ''middle'' True False demo_rest) (demo_state (0, 0) (0, 0) (0, 0)) =
     is_absorbing (\<lambda>p s. False) ((demo_task ''middle'' True False demo_rest)\<lparr>sub_problem := ''bottom''\<rparr>)
       (demo_state (0, 0) (0, 0) (0, 0))"
proof -
  have ne: "''middle'' \<noteq> ''side''" by simp
  note th = other_sub_problem_is_bottom
          [OF ne, where ri = True and ap = "0.001" and p = demo_rest
             and state = "demo_state (0, 0) (0, 0) (0, 0)" and action = "[3, 4, 0]"
             and next_state = "demo_state (-0.75, 0.2) (0, 0.5) (0, 0)" and absorbing = False
             and base = "\<lambda>p s. False"]
  have a: "\<exists>e. init True 0.001 ''middle'' (Inr demo_rest) = Inr e \<and> sub_problem e = ''middle'' \<and> start_range e = None"
    using th by simp
  have b: "sub_problem (demo_task ''middle'' True False demo_rest) = ''middle''"
    by (simp add: demo_task_def)
  show ?thesis
    using ne a th [THEN conjunct2, THEN spec, THEN mp, OF b] by simp
qed

subsection \<open>The contact flags\<close>

lemma contact_count_has_hit [simp]: "contact_count (self\<lparr>has_hit := h\<rparr>) l = contact_count self l"
  by (simp add: contact_count_def)

lemma has_hit_post_step:
  "has_hit (simulation_post_step self) =
     (has_hit self \<or> contact_count self (link_map_striker_ee (parent self)) > 0)"
  by (simp add: simulation_post_step_def Let_def)

lemma has_bounce_post_step:
  "has_bounce (simulation_post_step self) = (has_bounce self \<or> rim_contact_count self > 0)"
  by (simp add: simulation_post_step_def Let_def rim_contact_count_def)

lemma post_step_frame:
  "parent (simulation_post_step self) = parent self"
  by (simp add: simulation_post_step_def Let_def)

lemma post_step_eq:
  "simulation_post_step self =
     self\<lparr>has_hit := has_hit self \<or> contact_count self (link_map_striker_ee (parent self)) > 0,
          has_bounce := has_bounce self \<or> rim_contact_count self > 0\<rparr>"
  by (cases "has_hit self"; cases "has_bounce self")
     (simp_all add: simulation_post_step_def Let_def rim_contact_count_def)

lemma contact_count_flags:
  "contact_count (self\<lparr>has_hit := h, has_bounce := b\<rparr>) l = contact_count self l"
  by (simp add: contact_count_def)

lemma rim_contact_count_flags:
  "rim_contact_count (self\<lparr>has_hit := h, has_bounce := b\<rparr>) = rim_contact_count self"
  by (simp add: rim_contact_count_def contact_count_def)

lemma post_step_idem: "simulation_post_step (simulation_post_step self) = simulation_post_step self"
  by (simp add: post_step_eq contact_count_flags rim_contact_count_flags)

lemma setup_flags:
  assumes "setup_episode rand flip self state = Inr self'"
  shows "\<not> has_hit self' \<and> \<not> has_bounce self'"
proof (cases "start_range self")
  case None
  then show ?thesis using assms by (simp add: setup_episode_def)
next
  case (Some r)
  obtain x_lo x_hi y_lo y_hi where r: "r = ((x_lo, x_hi), (y_lo, y_hi))"
    by (metis prod.collapse)
  show ?thesis
    using assms Some r by (auto simp add: setup_episode_def Let_def split: sum.splits)
qed

lemma with_client_simps:
  "has_hit (with_client s c) = has_hit s" "has_bounce (with_client s c) = has_bounce s"
  "parent (with_client s c) = (parent s)\<lparr>client := c\<rparr>"
  by (simp_all add: with_client_def)

lemma contact_count_no_new:
  assumes "\<forall>a b la lb. getContactPoints c2 a b la lb \<noteq> [] \<longrightarrow> getContactPoints (client (parent self)) a b la lb \<noteq> []"
    and "parent s1 = parent self"
    and "contact_count (with_client s1 c2) l > 0"
  shows "contact_count self l > 0"
  using assms by (simp add: contact_count_def with_client_simps)

lemma rim_contact_count_no_new:
  assumes nn: "\<forall>a b la lb. getContactPoints c2 a b la lb \<noteq> [] \<longrightarrow> getContactPoints (client (parent self)) a b la lb \<noteq> []"
    and p: "parent s1 = parent self"
    and pos: "rim_contact_count (with_client s1 c2) > 0"
  shows "rim_contact_count self > 0"
proof -
  note cc = contact_count_no_new [OF nn p]
  have links: "link_map_t_up_rim_l (parent (with_client s1 c2)) = link_map_t_up_rim_l (parent self)"
    "link_map_t_up_rim_r (parent (with_client s1 c2)) = link_map_t_up_rim_r (parent self)"
    "link_map_t_down_rim_l (parent (with_client s1 c2)) = link_map_t_down_rim_l (parent self)"
    "link_map_t_down_rim_r (parent (with_client s1 c2)) = link_map_t_down_rim_r (parent self)"
    by (simp_all add: with_client_simps p)
  from pos consider
      "contact_count (with_client s1 c2) (link_map_t_up_rim_l (parent self)) > 0"
    | "contact_count (with_client s1 c2) (link_map_t_up_rim_r (parent self)) > 0"
    | "contact_count (with_client s1 c2) (link_map_t_down_rim_l (parent self)) > 0"
    | "contact_count (with_client s1 c2) (link_map_t_down_rim_r (parent self)) > 0"
    unfolding rim_contact_count_def links by linarith
  then show ?thesis
  proof cases
    case 1 from cc [OF this] show ?thesis by (simp add: rim_contact_count_def)
  next
    case 2 from cc [OF this] show ?thesis by (simp add: rim_contact_count_def)
  next
    case 3 from cc [OF this] show ?thesis by (simp add: rim_contact_count_def)
  next
    case 4 from cc [OF this] show ?thesis by (simp add: rim_contact_count_def)
  qed
qed

lemma post_step_no_new_contacts:
  assumes nn: "\<forall>a b la lb. getContactPoints c2 a b la lb \<noteq> [] \<longrightarrow> getContactPoints (client (parent self)) a b la lb \<noteq> []"
  shows "has_hit (simulation_post_step (with_client (simulation_post_step self) c2)) = has_hit (simulation_post_step self)"
    and "has_bounce (simulation_post_step (with_client (simulation_post_step self) c2)) = has_bounce (simulation_post_step self)"
proof -
  let ?s1 = "simulation_post_step self"
  have p: "parent ?s1 = parent self" by (rule post_step_frame)
  have l: "link_map_striker_ee (parent (with_client ?s1 c2)) = link_map_striker_ee (parent self)"
    by (simp add: with_client_simps p)
  have e1: "has_hit (simulation_post_step (with_client ?s1 c2)) =
              (has_hit ?s1 \<or> contact_count (with_client ?s1 c2) (link_map_striker_ee (parent self)) > 0)"
    by (simp add: has_hit_post_step [of "with_client ?s1 c2"] with_client_simps p)
  have e2: "has_bounce (simulation_post_step (with_client ?s1 c2)) =
              (has_bounce ?s1 \<or> rim_contact_count (with_client ?s1 c2) > 0)"
    by (simp add: has_bounce_post_step [of "with_client ?s1 c2"] with_client_simps)
  show "has_hit (simulation_post_step (with_client ?s1 c2)) = has_hit ?s1"
    using contact_count_no_new [OF nn p, of "link_map_striker_ee (parent self)"]
          has_hit_post_step [of self] e1 by auto
  show "has_bounce (simulation_post_step (with_client ?s1 c2)) = has_bounce ?s1"
    using rim_contact_count_no_new [OF nn p] has_bounce_post_step [of self] e2 by auto
qed

lemma flags_kept_by_calls:
  assumes "\<forall>rand flip st. m \<noteq> Call_setup rand flip st" and "instance_after m self = Inr self'"
  shows "(has_hit self \<longrightarrow> has_hit self') \<and> (has_bounce self \<longrightarrow> has_bounce self')"
proof (cases m)
  case (Call_setup rand flip st)
  with assms(1) show ?thesis by blast
next
  case Call_simulation_post_step
  with assms(2) have "self' = simulation_post_step self" by simp
  then show ?thesis by (simp add: has_hit_post_step has_bounce_post_step)
qed (use assms(2) in simp_all)

text \<open>
  C3. After \<open>setup\<close> both \<open>has_hit\<close> and \<open>has_bounce\<close> are false. Under
  \<open>_simulation_post_step\<close> each flag can only go from false to true: \<open>has_hit\<close> becomes
  true exactly on a contact point between puck and striker, \<open>has_bounce\<close> exactly on a
  contact point between the puck and one of the four rim segments. No method other than
  \<open>setup\<close> sets a flag back to false. A second \<open>_simulation_post_step\<close> changes nothing,
  and neither does one after the simulation has moved on without a new contact.
\<close>

theorem contact_flags:
  "(setup_episode rand flip self state = Inr self' \<longrightarrow> \<not> has_hit self' \<and> \<not> has_bounce self') \<and>
   has_hit (simulation_post_step self) =
     (has_hit self \<or> contact_count self (link_map_striker_ee (parent self)) > 0) \<and>
   has_bounce (simulation_post_step self) = (has_bounce self \<or> rim_contact_count self > 0) \<and>
   ((\<forall>rand flip st. m \<noteq> Call_setup rand flip st) \<and> instance_after m self = Inr self'' \<longrightarrow>
      (has_hit self \<longrightarrow> has_hit self'') \<and> (has_bounce self \<longrightarrow> has_bounce self'')) \<and>
   simulation_post_step (simulation_post_step self) = simulation_post_step self \<and>
   ((\<forall>a b la lb. getContactPoints c2 a b la lb \<noteq> [] \<longrightarrow>
                   getContactPoints (client (parent self)) a b la lb \<noteq> []) \<longrightarrow>
      has_hit (simulation_post_step (with_client (simulation_post_step self) c2)) =
        has_hit (simulation_post_step self) \<and>
      has_bounce (simulation_post_step (with_client (simulation_post_step self) c2)) =
        has_bounce (simulation_post_step self))"
  using setup_flags [of rand flip self state self'] has_hit_post_step [of self]
        has_bounce_post_step [of self] flags_kept_by_calls [of m self self'']
        post_step_idem [of self] post_step_no_new_contacts [of c2 self]
  by blast

theorem contact_flags_witness:
  "(\<exists>e. setup_episode (0.5, 0.5) True demo_before (demo_state (0, 0) (0, 0) (0, 0)) = Inr e \<and>
        \<not> has_hit e \<and> \<not> has_bounce e) \<and>
   has_hit demo_before \<and> \<not> has_bounce demo_before \<and>
   has_hit (simulation_post_step demo_before) \<and>
   has_bounce (simulation_post_step demo_before) \<and>
   has_hit (simulation_post_step (with_client (simulation_post_step demo_before) demo_client)) \<and>
   has_bounce (simulation_post_step (with_client (simulation_post_step demo_before) demo_client))"
proof -
  have "\<exists>e. setup_episode (0.5, 0.5) True demo_before (demo_state (0, 0) (0, 0) (0, 0)) = Inr e"
    by (simp add: setup_episode_def demo_before_def demo_task_def demo_parent_def Let_def)
  then obtain e where e: "setup_episode (0.5, 0.5) True demo_before (demo_state (0, 0) (0, 0) (0, 0)) = Inr e" ..
  note t = contact_flags [where self = demo_before and rand = "(0.5, 0.5)" and flip = True
      and state = "demo_state (0, 0) (0, 0) (0, 0)" and self' = e
      and m = Call_simulation_post_step and self'' = "simulation_post_step demo_before"
      and ?c2.0 = demo_client]
  have flags: "has_hit demo_before" "\<not> has_bounce demo_before"
    by (simp_all add: demo_before_def demo_task_def)
  have rim: "rim_contact_count demo_before > 0"
    by (simp add: rim_contact_count_def contact_count_def demo_before_def demo_task_def
          demo_parent_def demo_contacts_def)
  have none: "\<forall>a b la lb. getContactPoints demo_client a b la lb \<noteq> [] \<longrightarrow>
                getContactPoints (client (parent demo_before)) a b la lb \<noteq> []"
    by (simp add: demo_client_def)
  from t e have 1: "\<not> has_hit e \<and> \<not> has_bounce e" by blast
  from t flags rim have 2: "has_hit (simulation_post_step demo_before)"
    "has_bounce (simulation_post_step demo_before)" by blast+
  from t none 2 have 3:
    "has_hit (simulation_post_step (with_client (simulation_post_step demo_before) demo_client))"
    "has_bounce (simulation_post_step (with_client (simulation_post_step demo_before) demo_client))"
    by blast+
  from e 1 2 3 flags show ?thesis by blast
qed

subsection \<open>Episode reset without random initialisation\<close>

text \<open>
  The loop over the actuated joints succeeds when \<open>init_state\<close> has an entry for each of
  them; it touches neither the body poses nor the contact points, and a joint holds the
  value of its last entry in \<open>action_data\<close>.
\<close>

lemma reset_joints_ok:
  assumes "i + length ads \<le> length init_vec"
  shows "\<exists>c'. reset_joints c init_vec i ads = Inr c' \<and>
           base_pose c' = base_pose c \<and>
           getContactPoints c' = getContactPoints c \<and>
           (\<forall>key. key \<notin> joint_key ` set ads \<longrightarrow> joint_state c' key = joint_state c key) \<and>
           (\<forall>n<length ads.
              (\<forall>k. n < k \<and> k < length ads \<longrightarrow> joint_key (ads ! k) \<noteq> joint_key (ads ! n)) \<longrightarrow>
              joint_state c' (joint_key (ads ! n)) = Some (init_vec ! (i + n)))"
  using assms
proof (induction ads arbitrary: c i)
  case Nil
  then show ?case by simp
next
  case (Cons a rest)
  obtain m j md where a: "a = (m, j, md)" by (cases a) auto
  let ?c1 = "resetJointState c m j (init_vec ! i)"
  from Cons.prems have i: "i < length init_vec" and le: "Suc i + length rest \<le> length init_vec"
    by simp_all
  from Cons.IH [OF le, of ?c1] obtain c' where
        run: "reset_joints ?c1 init_vec (Suc i) rest = Inr c'"
    and bp: "base_pose c' = base_pose ?c1"
    and cp: "getContactPoints c' = getContactPoints ?c1"
    and frame: "\<And>key. key \<notin> joint_key ` set rest \<Longrightarrow> joint_state c' key = joint_state ?c1 key"
    and vals: "\<And>n. n < length rest \<Longrightarrow>
                 (\<forall>k. n < k \<and> k < length rest \<longrightarrow> joint_key (rest ! k) \<noteq> joint_key (rest ! n)) \<Longrightarrow>
                 joint_state c' (joint_key (rest ! n)) = Some (init_vec ! (Suc i + n))"
    by blast
  have r: "reset_joints c init_vec i (a # rest) = Inr c'"
    using run i by (simp add: a)
  have b: "base_pose c' = base_pose c" and g: "getContactPoints c' = getContactPoints c"
    using bp cp by (simp_all add: resetJointState_def)
  have ka: "joint_key a = (m, j)" by (simp add: a joint_key_def)
  have f: "\<forall>key. key \<notin> joint_key ` set (a # rest) \<longrightarrow> joint_state c' key = joint_state c key"
  proof (intro allI impI)
    fix key assume k: "key \<notin> joint_key ` set (a # rest)"
    then have "key \<notin> joint_key ` set rest" and "key \<noteq> (m, j)" using ka by auto
    then show "joint_state c' key = joint_state c key"
      using frame [of key] by (simp add: resetJointState_def)
  qed
  have v: "\<forall>n<length (a # rest).
              (\<forall>k. n < k \<and> k < length (a # rest) \<longrightarrow> joint_key ((a # rest) ! k) \<noteq> joint_key ((a # rest) ! n)) \<longrightarrow>
              joint_state c' (joint_key ((a # rest) ! n)) = Some (init_vec ! (i + n))"
  proof (intro allI impI)
    fix n
    assume n: "n < length (a # rest)"
      and later: "\<forall>k. n < k \<and> k < length (a # rest) \<longrightarrow> joint_key ((a # rest) ! k) \<noteq> joint_key ((a # rest) ! n)"
    show "joint_state c' (joint_key ((a # rest) ! n)) = Some (init_vec ! (i + n))"
    proof (cases n)
      case 0
      have "(m, j) \<notin> joint_key ` set rest"
      proof
        assume "(m, j) \<in> joint_key ` set rest"
        then obtain x where x: "x \<in> set rest" and kx: "joint_key x = (m, j)" by auto
        from x obtain k where k: "k < length rest" and xk: "rest ! k = x"
          by (auto simp add: in_set_conv_nth)
        from later [rule_format, of "Suc k"] k 0 have "joint_key (rest ! k) \<noteq> joint_key a" by simp
        with xk kx ka show False by simp
      qed
      from frame [OF this] have "joint_state c' (m, j) = Some (init_vec ! i)"
        by (simp add: resetJointState_def)
      with 0 ka show ?thesis by simp
    next
      case (Suc n')
      with n have n': "n' < length rest" by simp
      have "\<forall>k. n' < k \<and> k < length rest \<longrightarrow> joint_key (rest ! k) \<noteq> joint_key (rest ! n')"
      proof (intro allI impI)
        fix k assume "n' < k \<and> k < length rest"
        with later [rule_format, of "Suc k"] Suc show "joint_key (rest ! k) \<noteq> joint_key (rest ! n')"
          by simp
      qed
      from vals [OF n' this] Suc show ?thesis by simp
    qed
  qed
  from r b g f v show ?case by blast
qed

text \<open>
  C7. With \<open>random_init\<close> false and a start range configured, \<open>setup\<close> takes the midpoint
  of the range as the puck position whatever the random draws are, sets \<open>desired_point\<close>
  to \<open>(puck_x, 0)\<close>, places the puck body at \<open>(puck_x, puck_y, -0.189)\<close> with the
  identity orientation \<open>(0, 0, 0, 1)\<close>, and resets every joint of \<open>action_data\<close> to its
  entry of \<open>init_state\<close>.
\<close>

theorem setup_without_random_init:
  assumes "\<not> random_init self"
    and "start_range self = Some ((x_lo, x_hi), (y_lo, y_hi))"
    and "length (action_data (parent self)) \<le> length (init_state (parent self))"
  shows "\<exists>self'. setup_episode rand flip self state = Inr self' \<and>
           desired_point self' = ((x_lo + x_hi) / 2, 0) \<and>
           base_pose (client (parent self')) (model_map_puck (parent self)) =
             Some (((x_lo + x_hi) / 2, (y_lo + y_hi) / 2, -0.189), (0, 0, 0, 1)) \<and>
           (\<forall>n<length (action_data (parent self)).
              (\<forall>k. n < k \<and> k < length (action_data (parent self)) \<longrightarrow>
                 joint_key (action_data (parent self) ! k) \<noteq> joint_key (action_data (parent self) ! n)) \<longrightarrow>
              joint_state (client (parent self')) (joint_key (action_data (parent self) ! n)) =
                Some (init_state (parent self) ! n))"
proof -
  let ?p = "((x_lo + x_hi) / 2, (y_lo + y_hi) / 2)"
  let ?c1 = "resetBasePositionAndOrientation (client (parent self)) (model_map_puck (parent self))
               (fst ?p, snd ?p, -0.189) (0, 0, 0, 1)"
  from assms(3) have le: "0 + length (action_data (parent self)) \<le> length (init_state (parent self))"
    by simp
  from reset_joints_ok [OF le, of ?c1] obtain c2 where
        run: "reset_joints ?c1 (init_state (parent self)) 0 (action_data (parent self)) = Inr c2"
    and bp: "base_pose c2 = base_pose ?c1"
    and vals: "\<forall>n<length (action_data (parent self)).
              (\<forall>k. n < k \<and> k < length (action_data (parent self)) \<longrightarrow>
                 joint_key (action_data (parent self) ! k) \<noteq> joint_key (action_data (parent self) ! n)) \<longrightarrow>
              joint_state c2 (joint_key (action_data (parent self) ! n)) =
                Some (init_state (parent self) ! (0 + n))"
    by blast
  let ?self' = "self\<lparr>desired_point := (fst ?p, 0),
                     parent := (parent self)\<lparr>client := c2\<rparr>,
                     has_hit := False, has_bounce := False\<rparr>"
  have "setup_episode rand flip self state = Inr ?self'"
    using assms(1,2) run by (simp add: setup_episode_def Let_def)
  moreover have "desired_point ?self' = ((x_lo + x_hi) / 2, 0)" by simp
  moreover have "base_pose (client (parent ?self')) (model_map_puck (parent self)) =
             Some (((x_lo + x_hi) / 2, (y_lo + y_hi) / 2, -0.189), (0, 0, 0, 1))"
    using bp by (simp add: resetBasePositionAndOrientation_def)
  moreover have "client (parent ?self') = c2" by simp
  ultimately show ?thesis using vals by (intro exI [of _ ?self']) simp
qed


theorem setup_without_random_init_witness:
  "\<not> random_init (demo_task ''side'' True True demo_rest) \<and>
   start_range (demo_task ''side'' True True demo_rest) = Some ((-0.8, -0.4), (0.25, 0.46)) \<and>
   length (action_data (parent (demo_task ''side'' True True demo_rest)))
     \<le> length (init_state (parent (demo_task ''side'' True True demo_rest))) \<and>
   (\<exists>e. setup_episode (0.3, 0.9) True (demo_task ''side'' True True demo_rest) (demo_state (0, 0) (0, 0) (0, 0)) = Inr e \<and>
        desired_point e = (-0.6, 0) \<and>
        base_pose (client (parent e)) 1 = Some ((-0.6, 0.355, -0.189), (0, 0, 0, 1)) \<and>
        joint_state (client (parent e)) (2, 0) = Some (-0.9273) \<and>
        joint_state (client (parent e)) (2, 1) = Some 0.9273 \<and>
        joint_state (client (parent e)) (2, 2) = Some (pi / 2))"
proof -
  let ?D = "demo_task ''side'' True True demo_rest"
  have h1: "\<not> random_init ?D"
    and h2: "start_range ?D = Some ((-0.8, -0.4), (0.25, 0.46))"
    and ad: "action_data (parent ?D) = [(2, 0, 0), (2, 1, 0), (2, 2, 0)]"
    and iv: "init_state (parent ?D) = [-0.9273, 0.9273, pi / 2]"
    and mp: "model_map_puck (parent ?D) = 1"
    by (simp_all add: demo_task_def demo_rest_def demo_parent_def)
  have h3: "length (action_data (parent ?D)) \<le> length (init_state (parent ?D))"
    by (simp add: ad iv)
  from setup_without_random_init [OF h1 h2 h3, of "(0.3, 0.9)" True "demo_state (0, 0) (0, 0) (0, 0)"]
  obtain e where run: "setup_episode (0.3, 0.9) True ?D (demo_state (0, 0) (0, 0) (0, 0)) = Inr e"
    and dp: "desired_point e = ((-0.8 + -0.4) / 2, 0)"
    and bp: "base_pose (client (parent e)) (model_map_puck (parent ?D)) =
               Some (((-0.8 + -0.4) / 2, (0.25 + 0.46) / 2, -0.189), (0, 0, 0, 1))"
    and vals: "\<And>n. n < length (action_data (parent ?D)) \<Longrightarrow>
                 (\<forall>k. n < k \<and> k < length (action_data (parent ?D)) \<longrightarrow>
                    joint_key (action_data (parent ?D) ! k) \<noteq> joint_key (action_data (parent ?D) ! n)) \<Longrightarrow>
                 joint_state (client (parent e)) (joint_key (action_data (parent ?D) ! n)) =
                   Some (init_state (parent ?D) ! n)"
    by blast
  have later: "\<forall>k. n < k \<and> k < length (action_data (parent ?D)) \<longrightarrow>
                    joint_key (action_data (parent ?D) ! k) \<noteq> joint_key (action_data (parent ?D) ! n)" for n
  proof (intro allI impI)
    fix k assume "n < k \<and> k < length (action_data (parent ?D))"
    then have "n < k" and "k < 3" by (simp_all add: ad)
    then consider "n = 0 \<and> k = 1" | "n = 0 \<and> k = 2" | "n = 1 \<and> k = 2" by linarith
    then show "joint_key (action_data (parent ?D) ! k) \<noteq> joint_key (action_data (parent ?D) ! n)"
      by cases (simp_all add: ad joint_key_def)
  qed
  have j0: "joint_state (client (parent e)) (2, 0) = Some (-0.9273)"
    using vals [of 0] later [of 0] by (simp add: ad iv joint_key_def)
  have j1: "joint_state (client (parent e)) (2, 1) = Some 0.9273"
    using vals [of 1] later [of 1] by (simp add: ad iv joint_key_def)
  have j2: "joint_state (client (parent e)) (2, 2) = Some (pi / 2)"
    using vals [of 2] later [of 2] by (simp add: ad iv joint_key_def)
  from dp have dp': "desired_point e = (-0.6, 0)" by simp
  from bp have bp': "base_pose (client (parent e)) 1 = Some ((-0.6, 0.355, -0.189), (0, 0, 0, 1))"
    by (simp add: mp)
  from h1 h2 h3 run dp' bp' j0 j1 j2 show ?thesis by blast
qed

subsection \<open>Reward, regime "side": before the hit\<close>

text \<open>The shaping arithmetic on finite values, and on the \<open>nan\<close> of a zero distance.\<close>

lemma vec_divide_Float:
  "d \<noteq> 0 \<Longrightarrow> vec_divide v d = (Float (fst v / d), Float (snd v / d))"
  by (simp add: vec_divide_def np_divide_def)

lemma matmul_Float: "matmul (Float a, Float b) w = Float (a * fst w + b * snd w)"
  by (simp add: matmul_def np_lift2_Float)

lemma linalg_norm2_y: "0 \<le> y \<Longrightarrow> linalg_norm2 (0, y) = y"
  by (simp add: linalg_norm2_def)

lemma vec_divide_zero: "vec_divide v 0 = (NaN, NaN)"
  by (simp add: vec_divide_def np_divide_def)

lemma matmul_NaN: "matmul (NaN, NaN) w = NaN"
  by (simp add: matmul_def np_lift2_def)

lemma np_clip_NaN: "np_clip NaN lo hi = NaN"
  by (simp add: np_clip_def np_lift1_def)

lemma np_lift_NaN: "np_lift1 f NaN = NaN" "np_lift2 g a NaN = NaN" "np_lift2 g NaN b = NaN"
  by (simp_all add: np_lift1_def np_lift2_def split: npfloat.splits)

lemma py_max2_NaN: "py_max2 NaN b = NaN"
  by (simp add: py_max2_def)

text \<open>
  C5, as amended. In regime "side", off the bonus path, with \<open>has_hit\<close> false and a
  distance \<open>d\<close> that is not 0, the reward before the penalty is
  \<open>exp(-8 * (d - 0.08)) * cos^2\<close> with \<open>cos = clip(v . (0, s), 0, 1)\<close>, where
  \<open>s = copysign(1, puck_y)\<close>: \<open>-1\<close> when \<open>puck_y\<close> is negative or the negative zero,
  \<open>1\<close> when it is positive or the positive zero. Whenever \<open>puck_y\<close> is not 0 this \<open>s\<close>
  is \<open>sign(puck_y)\<close> and the formula is the one with \<open>sign(puck_y)\<close>. With the puck at
  \<open>(-0.7, 0.3)\<close> and the end effector at \<open>(-0.7, 0.08)\<close> the reward before the penalty
  is \<open>exp(-1.12)\<close>.
\<close>

theorem reward_side_before_hit:
  fixes self :: AirHockeyPrepare and action :: "real list" and next_state :: sim_state
  defines "puck \<equiv> puck_BODY_POS next_state" and "ee \<equiv> link_striker_ee_LINK_POS next_state"
    and "s \<equiv> (if snd (puck_BODY_POS next_state) < 0 \<or>
                  (snd (puck_BODY_POS next_state) = 0 \<and> puck_y_negative_zero next_state)
               then -1 else 1 :: real)"
  assumes "sub_problem self = ''side''"
    and "\<not> (absorbing \<and> \<bar>snd puck\<bar> < 0.47)"
    and "\<not> has_hit self"
    and "linalg_norm2 (vec_sub puck ee) \<noteq> 0"
  shows "reward self state action next_state absorbing =
           Float (side_pre_hit_formula s puck ee - action_penalty self * linalg_norm action) \<and>
         (snd puck \<noteq> 0 \<longrightarrow>
            s = sgn (snd puck) \<and>
            side_pre_hit_formula s puck ee = side_pre_hit_formula (sgn (snd puck)) puck ee) \<and>
         (puck = (-0.7, 0.3) \<and> ee = (-0.7, 0.08) \<longrightarrow> side_pre_hit_formula s puck ee = exp (-1.12))"
proof (intro conjI impI)
  show "reward self state action next_state absorbing =
           Float (side_pre_hit_formula s puck ee - action_penalty self * linalg_norm action)"
    using assms
    by (auto simp add: reward_def Let_def side_pre_hit_formula_def signbit_def
          vec_divide_Float matmul_Float np_clip_Float np_lift1_Float np_lift2_Float copysign_def)
next
  assume "snd puck \<noteq> 0"
  then show e: "s = sgn (snd puck)"
    by (simp add: s_def puck_def sgn_real_def)
  then show "side_pre_hit_formula s puck ee = side_pre_hit_formula (sgn (snd puck)) puck ee"
    by simp
next
  assume "puck = (-0.7, 0.3) \<and> ee = (-0.7, 0.08)"
  then show "side_pre_hit_formula s puck ee = exp (-1.12)"
    unfolding s_def puck_def [symmetric]
    by (simp add: side_pre_hit_formula_def vec_sub_def linalg_norm2_y Let_def)
qed

theorem reward_side_before_hit_witness:
  "reward (demo_task ''side'' False False demo_rest) (demo_state (0, 0) (0, 0) (0, 0)) [3, 4, 0]
     (demo_state (-0.7, 0.3) (0, 0) (-0.7, 0.08)) False = Float (exp (-1.12) - 0.005) \<and>
   side_pre_hit_formula (sgn 0.3) (-0.7, 0.3) (-0.7, 0.08) = exp (-1.12) \<and>
   reward (demo_task ''side'' False False demo_rest) (demo_state (0, 0) (0, 0) (0, 0)) [3, 4, 0]
     (demo_state (-0.7, 0) (0, 0) (-0.7, -0.2)) False = Float (exp (-0.96) - 0.005) \<and>
   reward (demo_task ''side'' False False demo_rest) (demo_state (0, 0) (0, 0) (0, 0)) [3, 4, 0]
     (demo_state_negative_zero (-0.7, 0) (0, 0) (-0.7, -0.2)) False = Float (- 0.005)"
proof -
  have f1: "side_pre_hit_formula 1 (- (7 / 10), 0) (- (7 / 10), - (1 / 5)) = exp (- 0.96)"
    by (simp add: side_pre_hit_formula_def vec_sub_def linalg_norm2_y Let_def)
  have f2: "side_pre_hit_formula (- 1) (- (7 / 10), 0) (- (7 / 10), - (1 / 5)) = 0"
    by (simp add: side_pre_hit_formula_def vec_sub_def linalg_norm2_y Let_def)
  show ?thesis
    using reward_side_before_hit [where self = "demo_task ''side'' False False demo_rest"
            and state = "demo_state (0, 0) (0, 0) (0, 0)" and action = "[3, 4, 0]"
            and next_state = "demo_state (-0.7, 0.3) (0, 0) (-0.7, 0.08)" and absorbing = False]
          reward_side_before_hit [where self = "demo_task ''side'' False False demo_rest"
            and state = "demo_state (0, 0) (0, 0) (0, 0)" and action = "[3, 4, 0]"
            and next_state = "demo_state (-0.7, 0) (0, 0) (-0.7, -0.2)" and absorbing = False]
          reward_side_before_hit [where self = "demo_task ''side'' False False demo_rest"
            and state = "demo_state (0, 0) (0, 0) (0, 0)" and action = "[3, 4, 0]"
            and next_state = "demo_state_negative_zero (-0.7, 0) (0, 0) (-0.7, -0.2)" and absorbing = False]
    by (simp add: demo_task_def demo_state_def demo_state_negative_zero_def linalg_norm_3_4_0
          vec_sub_def linalg_norm2_y f1 f2)
qed

text \<open>
  C5 as stated fails for a puck on the centreline. With \<open>puck_pos = (-0.7, 0.0)\<close>,
  \<open>ee_pos = (-0.7, -0.2)\<close>, \<open>has_hit\<close> false, \<open>absorbing\<close> false and the action
  \<open>(3, 4, 0)\<close>, the code takes the sign 1 and returns \<open>exp(-0.96) - 0.005\<close>; the formula
  with \<open>sign(0) = 0\<close> gives \<open>0 - 0.005\<close>.
\<close>

theorem reward_side_before_hit_sign_counterexample:
  "reward (demo_task ''side'' False False demo_rest) (demo_state (0, 0) (0, 0) (0, 0)) [3, 4, 0]
     (demo_state (-0.7, 0) (0, 0) (-0.7, -0.2)) False = Float (exp (- 0.96) - 0.005) \<and>
   side_pre_hit_formula (sgn 0) (-0.7, 0) (-0.7, -0.2)
     - action_penalty (demo_task ''side'' False False demo_rest) * linalg_norm [3, 4, 0] = - 0.005 \<and>
   reward (demo_task ''side'' False False demo_rest) (demo_state (0, 0) (0, 0) (0, 0)) [3, 4, 0]
     (demo_state (-0.7, 0) (0, 0) (-0.7, -0.2)) False
   \<noteq> Float (side_pre_hit_formula (sgn 0) (-0.7, 0) (-0.7, -0.2)
            - action_penalty (demo_task ''side'' False False demo_rest) * linalg_norm [3, 4, 0])"
proof -
  have r: "reward (demo_task ''side'' False False demo_rest) (demo_state (0, 0) (0, 0) (0, 0)) [3, 4, 0]
         (demo_state (-0.7, 0) (0, 0) (-0.7, -0.2)) False = Float (exp (- 0.96) - 0.005)"
    by (simp add: reward_def demo_task_def demo_state_def Let_def vec_sub_def linalg_norm2_y
          vec_divide_Float matmul_Float np_clip_Float np_lift1_Float np_lift2_Float copysign_def
          signbit_def linalg_norm_3_4_0)
  have c: "side_pre_hit_formula (sgn 0) (-0.7, 0) (-0.7, -0.2)
     - action_penalty (demo_task ''side'' False False demo_rest) * linalg_norm [3, 4, 0] = - 0.005"
    by (simp add: side_pre_hit_formula_def Let_def vec_sub_def linalg_norm2_y demo_task_def
          linalg_norm_3_4_0)
  show ?thesis unfolding r c by simp
qed

subsection \<open>Reward, regime "bottom"\<close>

lemma bottom_r_x_max: "bottom_r_x x \<le> bottom_r_x (-0.75)"
proof -
  have c: "0 \<le> 1 / (sqrt (2 * pi) * 0.1)" by simp
  have "exp (- (((x + 0.75) / 0.1)\<^sup>2) / 2) \<le> 1" by simp
  from mult_left_mono [OF this c] show ?thesis by (simp add: bottom_r_x_def)
qed

lemma bottom_r_x_max_strict: "x \<noteq> -0.75 \<Longrightarrow> bottom_r_x x < bottom_r_x (-0.75)"
proof -
  assume "x \<noteq> -0.75"
  then have "x + 0.75 \<noteq> 0" by simp
  then have "((x + 0.75) / 0.1)\<^sup>2 > 0" by simp
  then have "exp (- (((x + 0.75) / 0.1)\<^sup>2) / 2) < 1" by simp
  moreover have c: "0 < 1 / (sqrt (2 * pi) * 0.1)" by simp
  ultimately have "1 / (sqrt (2 * pi) * 0.1) * exp (- (((x + 0.75) / 0.1)\<^sup>2) / 2) < 1 / (sqrt (2 * pi) * 0.1) * 1"
    by (rule mult_strict_left_mono)
  then show ?thesis by (simp add: bottom_r_x_def)
qed

text \<open>
  C6, as amended. In regime "bottom": with \<open>absorbing\<close> true and \<open>puck_x >= -0.6\<close> the
  reward is \<open>100 * exp(-2 * ||puck velocity||)\<close>, with no penalty. Otherwise, after the
  hit and with \<open>-0.9 < puck_x < -0.6\<close>, \<open>|puck_y| < 0.47\<close>, the reward before the penalty
  is \<open>r_x + r_y + r_ee + 1\<close>, where \<open>r_x\<close> is the Gaussian term, largest at
  \<open>puck_x = -0.75\<close> and nowhere else, \<open>r_y = 2 - |v_y|\<close> and
  \<open>r_ee = 0.5 * exp(-3 * ||ee_pos - ee_end_pos||)\<close>; after the hit and outside that
  region it is 0. Before the hit, and with a distance \<open>d\<close> that is not 0, it is the
  shaping formula, with \<open>s = copysign(0.8, puck_y)\<close>: \<open>-0.8\<close> when \<open>puck_y\<close> is negative
  or the negative zero, \<open>0.8\<close> otherwise. The penalty is subtracted on all these paths
  but the first.
\<close>

theorem reward_bottom_piecewise:
  fixes self :: AirHockeyPrepare and action :: "real list" and next_state :: sim_state
  defines "puck \<equiv> puck_BODY_POS next_state" and "ee \<equiv> link_striker_ee_LINK_POS next_state"
    and "vel \<equiv> puck_BODY_LIN_VEL next_state"
    and "penalty \<equiv> action_penalty self * linalg_norm action"
    and "s \<equiv> (if snd (puck_BODY_POS next_state) < 0 \<or>
                  (snd (puck_BODY_POS next_state) = 0 \<and> puck_y_negative_zero next_state)
               then -0.8 else 0.8 :: real)"
  assumes "sub_problem self = ''bottom''"
  shows "(absorbing \<and> fst puck \<ge> -0.6 \<longrightarrow>
            reward self state action next_state absorbing = Float (100 * exp (-2 * linalg_norm2 vel))) \<and>
         (\<not> (absorbing \<and> fst puck \<ge> -0.6) \<and> has_hit self \<and>
          -0.9 < fst puck \<and> fst puck < -0.6 \<and> \<bar>snd puck\<bar> < 0.47 \<longrightarrow>
            reward self state action next_state absorbing =
              Float (bottom_r_x (fst puck) + (2 - \<bar>snd vel\<bar>)
                     + 0.5 * exp (-3 * linalg_norm2 (vec_sub ee (ee_end_pos self))) + 1 - penalty)) \<and>
         (\<not> (absorbing \<and> fst puck \<ge> -0.6) \<and> has_hit self \<and>
          \<not> (-0.9 < fst puck \<and> fst puck < -0.6 \<and> \<bar>snd puck\<bar> < 0.47) \<longrightarrow>
            reward self state action next_state absorbing = Float (0 - penalty)) \<and>
         (\<not> (absorbing \<and> fst puck \<ge> -0.6) \<and> \<not> has_hit self \<and>
          linalg_norm2 (vec_sub puck ee) \<noteq> 0 \<longrightarrow>
            reward self state action next_state absorbing =
              Float (bottom_pre_hit_formula s puck ee - penalty)) \<and>
         (\<forall>x. bottom_r_x x \<le> bottom_r_x (-0.75)) \<and>
         (\<forall>x. x \<noteq> -0.75 \<longrightarrow> bottom_r_x x < bottom_r_x (-0.75))"
proof (intro conjI impI allI)
  assume "absorbing \<and> fst puck \<ge> -0.6"
  then show "reward self state action next_state absorbing = Float (100 * exp (-2 * linalg_norm2 vel))"
    using assms by (simp add: reward_def Let_def)
next
  assume "\<not> (absorbing \<and> fst puck \<ge> -0.6) \<and> has_hit self \<and>
          -0.9 < fst puck \<and> fst puck < -0.6 \<and> \<bar>snd puck\<bar> < 0.47"
  then show "reward self state action next_state absorbing =
              Float (bottom_r_x (fst puck) + (2 - \<bar>snd vel\<bar>)
                     + 0.5 * exp (-3 * linalg_norm2 (vec_sub ee (ee_end_pos self))) + 1 - penalty)"
    using assms by (auto simp add: reward_def Let_def bottom_r_x_def np_lift2_Float)
next
  assume "\<not> (absorbing \<and> fst puck \<ge> -0.6) \<and> has_hit self \<and>
          \<not> (-0.9 < fst puck \<and> fst puck < -0.6 \<and> \<bar>snd puck\<bar> < 0.47)"
  then show "reward self state action next_state absorbing = Float (0 - penalty)"
    using assms by (auto simp add: reward_def Let_def np_lift2_Float)
next
  assume "\<not> (absorbing \<and> fst puck \<ge> -0.6) \<and> \<not> has_hit self \<and>
          linalg_norm2 (vec_sub puck ee) \<noteq> 0"
  then show "reward self state action next_state absorbing =
              Float (bottom_pre_hit_formula s puck ee - penalty)"
    using assms
    by (auto simp add: reward_def Let_def bottom_pre_hit_formula_def vec_divide_Float matmul_Float
          np_clip_Float np_lift1_Float np_lift2_Float copysign_def signbit_def py_max2_Float)
next
  fix x show "bottom_r_x x \<le> bottom_r_x (-0.75)" by (rule bottom_r_x_max)
next
  fix x :: real assume "x \<noteq> -0.75"
  then show "bottom_r_x x < bottom_r_x (-0.75)" by (rule bottom_r_x_max_strict)
qed

theorem reward_bottom_piecewise_witness:
  "reward (demo_task ''bottom'' False False demo_rest) (demo_state (0, 0) (0, 0) (0, 0)) [3, 4, 0]
     (demo_state (-0.5, 0.1) (0.3, 0.4) (0, 0)) True = Float (100 * exp (-1)) \<and>
   reward (demo_task ''bottom'' True False demo_rest) (demo_state (0, 0) (0, 0) (0, 0)) [3, 4, 0]
     (demo_state (-0.75, 0.2) (0, 0.5) (-0.810001913, -0.00000143459494)) False =
     Float (bottom_r_x (-0.75) + 2.995) \<and>
   reward (demo_task ''bottom'' True False demo_rest) (demo_state (0, 0) (0, 0) (0, 0)) [3, 4, 0]
     (demo_state (-0.5, 0.2) (0, 0.5) (0, 0)) False = Float (- 0.005) \<and>
   reward (demo_task ''bottom'' False False demo_rest) (demo_state (0, 0) (0, 0) (0, 0)) [3, 4, 0]
     (demo_state (-0.85, 0.3) (0, 0) (-0.85, 0.08)) False = Float (exp (-1.12) * 0.64 - 0.005) \<and>
   reward (demo_task ''bottom'' False False demo_rest) (demo_state (0, 0) (0, 0) (0, 0)) [3, 4, 0]
     (demo_state (-0.85, 0) (0, 0) (-0.85, -0.2)) False = Float (exp (-0.96) * 0.64 - 0.005) \<and>
   reward (demo_task ''bottom'' False False demo_rest) (demo_state (0, 0) (0, 0) (0, 0)) [3, 4, 0]
     (demo_state_negative_zero (-0.85, 0) (0, 0) (-0.85, -0.2)) False = Float (- 0.005)"
proof -
  have f: "bottom_pre_hit_formula (4 / 5) (- (17 / 20), 3 / 10) (- (17 / 20), 2 / 25) = exp (-1.12) * 0.64"
    by (simp add: bottom_pre_hit_formula_def vec_sub_def linalg_norm2_y Let_def power2_eq_square)
  have f1: "bottom_pre_hit_formula (4 / 5) (- (17 / 20), 0) (- (17 / 20), - (1 / 5)) = exp (-0.96) * 0.64"
    by (simp add: bottom_pre_hit_formula_def vec_sub_def linalg_norm2_y Let_def power2_eq_square)
  have f2: "bottom_pre_hit_formula (- (4 / 5)) (- (17 / 20), 0) (- (17 / 20), - (1 / 5)) = 0"
    by (simp add: bottom_pre_hit_formula_def vec_sub_def linalg_norm2_y Let_def)
  show ?thesis
    using reward_bottom_piecewise [where self = "demo_task ''bottom'' False False demo_rest"
            and state = "demo_state (0, 0) (0, 0) (0, 0)" and action = "[3, 4, 0]"
            and next_state = "demo_state (-0.5, 0.1) (0.3, 0.4) (0, 0)" and absorbing = True]
          reward_bottom_piecewise [where self = "demo_task ''bottom'' True False demo_rest"
            and state = "demo_state (0, 0) (0, 0) (0, 0)" and action = "[3, 4, 0]"
            and next_state = "demo_state (-0.75, 0.2) (0, 0.5) (-0.810001913, -0.00000143459494)"
            and absorbing = False]
          reward_bottom_piecewise [where self = "demo_task ''bottom'' True False demo_rest"
            and state = "demo_state (0, 0) (0, 0) (0, 0)" and action = "[3, 4, 0]"
            and next_state = "demo_state (-0.5, 0.2) (0, 0.5) (0, 0)" and absorbing = False]
          reward_bottom_piecewise [where self = "demo_task ''bottom'' False False demo_rest"
            and state = "demo_state (0, 0) (0, 0) (0, 0)" and action = "[3, 4, 0]"
            and next_state = "demo_state (-0.85, 0.3) (0, 0) (-0.85, 0.08)" and absorbing = False]
          reward_bottom_piecewise [where self = "demo_task ''bottom'' False False demo_rest"
            and state = "demo_state (0, 0) (0, 0) (0, 0)" and action = "[3, 4, 0]"
            and next_state = "demo_state (-0.85, 0) (0, 0) (-0.85, -0.2)" and absorbing = False]
          reward_bottom_piecewise [where self = "demo_task ''bottom'' False False demo_rest"
            and state = "demo_state (0, 0) (0, 0) (0, 0)" and action = "[3, 4, 0]"
            and next_state = "demo_state_negative_zero (-0.85, 0) (0, 0) (-0.85, -0.2)" and absorbing = False]
    by (simp add: demo_task_def demo_state_def demo_state_negative_zero_def linalg_norm_3_4_0
          linalg_norm2_3_4 vec_sub_def linalg_norm2_zero linalg_norm2_y f f1 f2)
qed

text \<open>
  C6 as stated fails before the hit when the puck and the end effector coincide: with
  both at \<open>(-0.85, 0.3)\<close> the distance is 0, the division \<open>0 / 0\<close> gives \<open>nan\<close>, and the
  reward is \<open>nan\<close>, not the value of the shaping formula.
\<close>

theorem reward_bottom_coinciding_counterexample:
  "reward (demo_task ''bottom'' False False demo_rest) (demo_state (0, 0) (0, 0) (0, 0)) [3, 4, 0]
     (demo_state (-0.85, 0.3) (0, 0) (-0.85, 0.3)) False = NaN \<and>
   \<not> (\<exists>r. reward (demo_task ''bottom'' False False demo_rest) (demo_state (0, 0) (0, 0) (0, 0)) [3, 4, 0]
            (demo_state (-0.85, 0.3) (0, 0) (-0.85, 0.3)) False = Float r)"
proof -
  have "reward (demo_task ''bottom'' False False demo_rest) (demo_state (0, 0) (0, 0) (0, 0)) [3, 4, 0]
            (demo_state (-0.85, 0.3) (0, 0) (-0.85, 0.3)) False = NaN"
    by (simp add: reward_def demo_task_def demo_state_def Let_def vec_sub_def linalg_norm2_zero
          vec_divide_zero matmul_NaN np_clip_NaN np_lift_NaN py_max2_NaN)
  then show ?thesis by simp
qed

subsection \<open>Coinciding puck and end effector\<close>

text \<open>
  C8, as amended. The shaping before the hit is not guarded against a zero distance:
  whenever \<open>has_hit\<close> is false, the bonus at the end of the episode does not apply and
  the puck and the end effector are at the same position, the direction is \<open>0 / 0\<close> and
  the reward is \<open>nan\<close>, not a finite number.
\<close>

theorem reward_nan_when_coinciding:
  assumes "pre_hit_shaping_evaluated self next_state absorbing"
    and "puck_BODY_POS next_state = link_striker_ee_LINK_POS next_state"
  shows "reward self state action next_state absorbing = NaN"
proof -
  have d: "linalg_norm2 (vec_sub (link_striker_ee_LINK_POS next_state) (link_striker_ee_LINK_POS next_state)) = 0"
    by (simp add: linalg_norm2_def vec_sub_def)
  show ?thesis
    using assms
    by (auto simp add: pre_hit_shaping_evaluated_def reward_def Let_def d vec_divide_zero matmul_NaN
          np_clip_NaN np_lift_NaN py_max2_NaN split: if_splits)
qed

theorem reward_nan_when_coinciding_witness:
  "pre_hit_shaping_evaluated (demo_task ''bottom'' False False demo_rest)
     (demo_state (-0.85, 0.3) (0, 0) (-0.85, 0.3)) True \<and>
   reward (demo_task ''bottom'' False False demo_rest) (demo_state (0, 0) (0, 0) (0, 0)) [3, 4, 0]
     (demo_state (-0.85, 0.3) (0, 0) (-0.85, 0.3)) True = NaN \<and>
   pre_hit_shaping_evaluated (demo_task ''side'' False False demo_rest)
     (demo_state (-0.6, 0.47) (0, 0) (-0.6, 0.47)) True \<and>
   reward (demo_task ''side'' False False demo_rest) (demo_state (0, 0) (0, 0) (0, 0)) []
     (demo_state (-0.6, 0.47) (0, 0) (-0.6, 0.47)) True = NaN"
  using reward_nan_when_coinciding [where self = "demo_task ''bottom'' False False demo_rest"
          and state = "demo_state (0, 0) (0, 0) (0, 0)" and action = "[3, 4, 0]"
          and next_state = "demo_state (-0.85, 0.3) (0, 0) (-0.85, 0.3)" and absorbing = True]
        reward_nan_when_coinciding [where self = "demo_task ''side'' False False demo_rest"
          and state = "demo_state (0, 0) (0, 0) (0, 0)" and action = "[]"
          and next_state = "demo_state (-0.6, 0.47) (0, 0) (-0.6, 0.47)" and absorbing = True]
  by (simp add: pre_hit_shaping_evaluated_def demo_task_def demo_state_def)

text \<open>
  C8 as stated fails: in regime "side", before the hit, with the puck and the end
  effector both at \<open>(-0.7, 0.3)\<close>, the reward is no finite number.
\<close>

theorem reward_not_guarded_counterexample:
  "\<not> (\<exists>r. reward (demo_task ''side'' False False demo_rest) (demo_state (0, 0) (0, 0) (0, 0)) [3, 4, 0]
            (demo_state (-0.7, 0.3) (0, 0) (-0.7, 0.3)) False = Float r)"
proof -
  have "reward (demo_task ''side'' False False demo_rest) (demo_state (0, 0) (0, 0) (0, 0)) [3, 4, 0]
            (demo_state (-0.7, 0.3) (0, 0) (-0.7, 0.3)) False = NaN"
    by (simp add: reward_def demo_task_def demo_state_def Let_def vec_sub_def linalg_norm2_zero
          vec_divide_zero matmul_NaN np_clip_NaN np_lift_NaN)
  then show ?thesis by simp
qed

end
